theory Spec2Isabelle
  imports Complex_Main "HOL-Library.Word"
begin

section \<open>Data model\<close>

text \<open>
  Python text (\<open>str\<close>) is a list of Unicode code points; byte strings are lists of
  8-bit words. Short ASCII identifiers that the code compares against constants (PIL
  modes and formats, environment variable names and values, route paths) are HOL strings.
\<close>

type_synonym pystr = "nat list"
type_synonym bytes = "8 word list"

definition lit :: "string \<Rightarrow> pystr" where
  "lit s = map of_char s"

text \<open>
  An exception (any instance of a subclass of \<open>Exception\<close>, which is what both
  \<open>except Exception\<close> clauses of the source catch) is its class name and its string
  description \<open>str(e)\<close>.
\<close>

datatype exn = Exn (exn_class: string) (exn_str: pystr)

text \<open>
  A PIL image, reduced to the attributes the source reads: \<open>mode\<close>, \<open>size\<close>,
  \<open>format\<close> (\<open>None\<close> for images made by the library rather than read from a file),
  and the outcome of the deferred pixel load: \<open>Image.open\<close> only identifies the
  container, the pixel data is read by the first operation that needs it (\<open>load()\<close>)
  and that read may raise.
\<close>

record image =
  mode :: string
  size_wh :: "nat \<times> nat"
  format :: "string option"
  load_error :: "exn option"

definition load :: "image \<Rightarrow> exn + unit" where
  "load im = (case load_error im of Some e \<Rightarrow> Inl e | None \<Rightarrow> Inr ())"

text \<open>
  \<open>Image.convert(m)\<close>: loads the pixel data, then returns a new image of mode \<open>m\<close>
  and the same size; the new image was not read from a file, so its \<open>format\<close> is
  \<open>None\<close>.
\<close>

definition convert :: "image \<Rightarrow> string \<Rightarrow> exn + image" where
  "convert im m =
     (case load im of
        Inl e \<Rightarrow> Inl e
      | Inr _ \<Rightarrow> Inr \<lparr>mode = m, size_wh = size_wh im, format = None, load_error = None\<rparr>)"

section \<open>utils/image\_processing.py\<close>

text \<open>
  \<open>load_image_as_pillow\<close>. \<open>Image_open\<close> is the library's \<open>Image.open\<close> on the
  byte stream. Every exception raised inside the \<open>try\<close> (by the open or by the
  conversion) is re-raised as a \<open>ValueError\<close> whose text embeds the original one.
\<close>

definition load_image_as_pillow :: "(bytes \<Rightarrow> exn + image) \<Rightarrow> bytes \<Rightarrow> exn + image" where
  "load_image_as_pillow Image_open image_bytes =
     (case (case Image_open image_bytes of
              Inl e \<Rightarrow> Inl e
            | Inr im \<Rightarrow>
                if mode im \<notin> set [''RGB'', ''L''] then convert im ''RGB'' else Inr im) of
        Inl e \<Rightarrow> Inl (Exn ''ValueError'' (lit ''Failed to load image: '' @ exn_str e))
      | Inr im \<Rightarrow> Inr im)"

text \<open>\<open>validate_image_format\<close>; the argument \<open>None\<close> selects the default list.\<close>

definition validate_image_format :: "image \<Rightarrow> string list option \<Rightarrow> bool" where
  "validate_image_format im allowed_formats =
     (let allowed = (case allowed_formats of
                       None \<Rightarrow> [''JPEG'', ''PNG'', ''JPG'', ''WEBP'']
                     | Some fs \<Rightarrow> fs)
      in case format im of None \<Rightarrow> False | Some f \<Rightarrow> f \<in> set allowed)"

subsection \<open>Image.thumbnail\<close>

text \<open>
  The size computation of \<open>Image.thumbnail\<close> (\<open>preserve_aspect_ratio\<close> and its
  \<open>round_aspect\<close>), with the library's binary floating point replaced by exact
  rational arithmetic. \<open>min(a, b, key=k)\<close> keeps \<open>a\<close> unless \<open>k b < k a\<close>. The result
  \<open>None\<close> means that the image already fits and is left alone.
\<close>

definition ZeroDivisionError :: exn where
  "ZeroDivisionError = Exn ''ZeroDivisionError'' (lit ''division by zero'')"

definition round_aspect :: "rat \<Rightarrow> (int \<Rightarrow> rat) \<Rightarrow> int" where
  "round_aspect number key =
     max (let f = \<lfloor>number\<rfloor>; c = \<lceil>number\<rceil> in if key f \<le> key c then f else c) 1"

definition preserve_aspect_ratio :: "nat \<times> nat \<Rightarrow> int \<times> int \<Rightarrow> exn + (int \<times> int) option" where
  "preserve_aspect_ratio wh provided_size =
     (let width = fst wh; height = snd wh; x = fst provided_size; y = snd provided_size in
      if x \<ge> int width \<and> y \<ge> int height then Inr None
      else if height = 0 then Inl ZeroDivisionError
      else
        let aspect = (of_nat width / of_nat height :: rat) in
        if y = 0 then Inl ZeroDivisionError
        else if of_int x / of_int y \<ge> aspect then
          Inr (Some (round_aspect (of_int y * aspect)
                       (\<lambda>n. \<bar>aspect - of_int n / of_int y\<bar>), y))
        else if aspect = 0 then Inl ZeroDivisionError
        else
          Inr (Some (x, round_aspect (of_int x / aspect)
                          (\<lambda>n. if n = 0 then 0 else \<bar>aspect - of_int x / of_int n\<bar>))))"

text \<open>
  \<open>Image.thumbnail\<close> changes the image it is called on: the value returned here is
  the new state of that same object. The library's resize refuses a target with a side
  below one pixel. (The JPEG decoder's draft mode, which only affects how the pixels
  are read, is left out.)
\<close>

definition thumbnail :: "image \<Rightarrow> int \<times> int \<Rightarrow> exn + image" where
  "thumbnail im max_size =
     (case preserve_aspect_ratio (size_wh im) max_size of
        Inl e \<Rightarrow> Inl e
      | Inr None \<Rightarrow> Inr im
      | Inr (Some sz) \<Rightarrow>
          (case load im of
             Inl e \<Rightarrow> Inl e
           | Inr _ \<Rightarrow>
               if (int (fst (size_wh im)), int (snd (size_wh im))) \<noteq> sz then
                 if fst sz < 1 \<or> snd sz < 1 then
                   Inl (Exn ''ValueError'' (lit ''height and width must be > 0''))
                 else Inr (im\<lparr>size_wh := (nat (fst sz), nat (snd sz))\<rparr>)
               else Inr im))"

subsection \<open>Objects and references\<close>

text \<open>
  Image objects live in a store and are passed by reference, so that a function which
  changes its argument in place changes what the caller holds. \<open>next_free\<close> is the
  next unused reference.
\<close>

record store =
  objs :: "nat \<Rightarrow> image"
  next_free :: nat

definition convert_obj :: "store \<Rightarrow> nat \<Rightarrow> string \<Rightarrow> (exn + nat) \<times> store" where
  "convert_obj s r m =
     (case convert (objs s r) m of
        Inl e \<Rightarrow> (Inl e, s)
      | Inr im \<Rightarrow>
          (Inr (next_free s),
           s\<lparr>objs := (objs s)(next_free s := im), next_free := Suc (next_free s)\<rparr>))"

text \<open>\<open>Image.save\<close> reads the pixel data and hands the image to the encoder.\<close>

definition save :: "(image \<Rightarrow> exn + bytes) \<Rightarrow> image \<Rightarrow> exn + bytes" where
  "save encoder im = (case load im of Inl e \<Rightarrow> Inl e | Inr _ \<Rightarrow> encoder im)"

subsection \<open>resize\_image and optimize\_image\_for\_api\<close>

text \<open>
  \<open>resize_image\<close> calls \<open>image.thumbnail(max_size, LANCZOS)\<close> on the argument and
  returns the argument: the reference returned is the one passed in.
\<close>

definition resize_image :: "store \<Rightarrow> nat \<Rightarrow> int \<times> int \<Rightarrow> (exn + nat) \<times> store" where
  "resize_image s img max_size =
     (case thumbnail (objs s img) max_size of
        Inl e \<Rightarrow> (Inl e, s)
      | Inr im \<Rightarrow> (Inr img, s\<lparr>objs := (objs s)(img := im)\<rparr>))"

text \<open>
  The two last steps of \<open>optimize_image_for_api\<close>: conversion to \<open>RGB\<close> if needed,
  then JPEG encoding with the given quality. \<open>jpeg\<close> is the library's encoder.
\<close>

definition convert_and_encode ::
  "(image \<Rightarrow> int \<Rightarrow> exn + bytes) \<Rightarrow> store \<Rightarrow> nat \<Rightarrow> int \<Rightarrow> (exn + bytes) \<times> store" where
  "convert_and_encode jpeg s img quality =
     (case (if mode (objs s img) \<notin> set [''RGB'', ''L'']
            then convert_obj s img ''RGB'' else (Inr img, s)) of
        (Inl e, s') \<Rightarrow> (Inl e, s')
      | (Inr img', s') \<Rightarrow> (save (\<lambda>im. jpeg im quality) (objs s' img'), s'))"

definition optimize_image_for_api ::
  "(image \<Rightarrow> int \<Rightarrow> exn + bytes) \<Rightarrow> store \<Rightarrow> nat \<Rightarrow> int \<times> int \<Rightarrow> int \<Rightarrow> (exn + bytes) \<times> store" where
  "optimize_image_for_api jpeg s img max_size quality =
     (case (if int (fst (size_wh (objs s img))) > fst max_size
               \<or> int (snd (size_wh (objs s img))) > snd max_size
            then resize_image s img max_size else (Inr img, s)) of
        (Inl e, s') \<Rightarrow> (Inl e, s')
      | (Inr img', s') \<Rightarrow> convert_and_encode jpeg s' img' quality)"

section \<open>main.py: the health endpoint\<close>

text \<open>
  The process environment is a map from names to values; \<open>os.getenv\<close> is the lookup.
  \<open>bool(v)\<close> of an optional string is false for \<open>None\<close> and for the empty string.
\<close>

type_synonym environ = "string \<rightharpoonup> string"

record health =
  status :: string
  openai_configured :: bool
  routes_loaded :: bool
  python_version :: string
  environment :: string

definition py_bool :: "string option \<Rightarrow> bool" where
  "py_bool v = (case v of None \<Rightarrow> False | Some s \<Rightarrow> s \<noteq> [])"

definition getenv_default :: "environ \<Rightarrow> string \<Rightarrow> string \<Rightarrow> string" where
  "getenv_default env k d = (case env k of None \<Rightarrow> d | Some v \<Rightarrow> v)"

text \<open>
  \<open>health_check\<close>: \<open>routes\<close> are the paths of \<open>app.routes\<close>, \<open>version\<close> is
  \<open>sys.version\<close>.
\<close>

definition health_check :: "environ \<Rightarrow> string list \<Rightarrow> string \<Rightarrow> health" where
  "health_check env routes version =
     \<lparr>status = ''healthy'',
      openai_configured = py_bool (env ''OPENAI_API_KEY''),
      routes_loaded = list_ex (\<lambda>p. p = ''/api/comics/identify'') routes,
      python_version = version,
      environment = getenv_default env ''ENVIRONMENT'' ''production''\<rparr>"

section \<open>json.loads\<close>

text \<open>
  The decoder of the standard library, as \<open>json.loads\<close> runs it on a \<open>str\<close> with
  the default settings: what it accepts, the value it builds, and the message and the
  position of the error it raises otherwise. A decoded object is a \<open>dict\<close>: an
  association list in insertion order with one entry for each key. Integers are
  unbounded. A number with a fraction or an exponent, and the constants \<open>NaN\<close>,
  \<open>Infinity\<close> and \<open>-Infinity\<close>, are floats; they are kept as their source text and
  not evaluated. The interpreter's recursion limit is not modelled.
\<close>

datatype json =
    JNull
  | JBool bool
  | JInt int
  | JFloat pystr
  | JStr pystr
  | JArr "json list"
  | JObj "(pystr \<times> json) list"

fun dict_set :: "(pystr \<times> json) list \<Rightarrow> pystr \<Rightarrow> json \<Rightarrow> (pystr \<times> json) list" where
  "dict_set [] k v = [(k, v)]"
| "dict_set ((k', v') # kvs) k v =
     (if k' = k then (k', v) # kvs else (k', v') # dict_set kvs k v)"

text \<open>
  The outcome of a scanning step: the value with the text that follows it, or an error
  message with the number of characters that were left at the position of the error,
  or \<open>Deep\<close> when the recursion bound of this model is used up.
\<close>

datatype 'a scan = Ok 'a pystr | Fail string nat | Deep

text \<open>Whitespace is space, tab, line feed and carriage return.\<close>

fun skip_ws :: "pystr \<Rightarrow> pystr" where
  "skip_ws [] = []"
| "skip_ws (c # cs) = (if c = 32 \<or> c = 9 \<or> c = 10 \<or> c = 13 then skip_ws cs else c # cs)"

definition is_digit :: "nat \<Rightarrow> bool" where
  "is_digit c \<longleftrightarrow> 48 \<le> c \<and> c \<le> 57"

definition hexval :: "nat \<Rightarrow> nat option" where
  "hexval c =
     (if 48 \<le> c \<and> c \<le> 57 then Some (c - 48)
      else if 97 \<le> c \<and> c \<le> 102 then Some (c - 87)
      else if 65 \<le> c \<and> c \<le> 70 then Some (c - 55)
      else None)"

fun hex4 :: "pystr \<Rightarrow> nat option" where
  "hex4 [a, b, c, d] =
     (case (hexval a, hexval b, hexval c, hexval d) of
        (Some x, Some y, Some z, Some w) \<Rightarrow> Some (((x * 16 + y) * 16 + z) * 16 + w)
      | _ \<Rightarrow> None)"
| "hex4 _ = None"

text \<open>The character after a backslash: \<open>" \ / b f n r t\<close>.\<close>

definition escape_char :: "nat \<Rightarrow> nat option" where
  "escape_char e =
     (if e = 34 then Some 34 else if e = 92 then Some 92 else if e = 47 then Some 47
      else if e = 98 then Some 8 else if e = 102 then Some 12 else if e = 110 then Some 10
      else if e = 114 then Some 13 else if e = 116 then Some 9 else None)"

definition invalid_escape :: string where
  "invalid_escape = ''Invalid '' @ [CHR 0x5C] @ ''escape''"

definition invalid_uXXXX_escape :: string where
  "invalid_uXXXX_escape = ''Invalid '' @ [CHR 0x5C] @ ''uXXXX escape''"

text \<open>
  \<open>scanstring\<close>, on the text after the opening quote; \<open>b\<close> is the number of
  characters left at the opening quote. A unicode escape needs four hexadecimal digits
  and one more character after them; a high surrogate followed by an escaped low
  surrogate (and one more character) is joined with it.
\<close>

fun scanstring :: "pystr \<Rightarrow> pystr \<Rightarrow> nat \<Rightarrow> pystr scan" where
  "scanstring [] acc b = Fail ''Unterminated string starting at'' b"
| "scanstring (c # cs) acc b =
     (if c = 34 then Ok acc cs
      else if c < 32 then Fail ''Invalid control character at'' (Suc (length cs))
      else if c \<noteq> 92 then scanstring cs (acc @ [c]) b
      else
        (case cs of
           [] \<Rightarrow> Fail ''Unterminated string starting at'' b
         | e # es \<Rightarrow>
             if e \<noteq> 117 then
               (case escape_char e of
                  None \<Rightarrow> Fail invalid_escape (Suc (length cs))
                | Some ch \<Rightarrow> scanstring es (acc @ [ch]) b)
             else if length es < 5 then Fail invalid_uXXXX_escape (length cs)
             else
               (case hex4 (take 4 es) of
                  None \<Rightarrow> Fail invalid_uXXXX_escape (length cs)
                | Some uni \<Rightarrow>
                    let r = drop 4 es in
                    if 0xD800 \<le> uni \<and> uni \<le> 0xDBFF \<and> 6 < length r \<and> take 2 r = [92, 117] then
                      (case hex4 (take 4 (drop 2 r)) of
                         None \<Rightarrow> Fail invalid_uXXXX_escape (length r - 1)
                       | Some uni2 \<Rightarrow>
                           if 0xDC00 \<le> uni2 \<and> uni2 \<le> 0xDFFF then
                             scanstring (drop 6 r)
                               (acc @ [0x10000 + (uni - 0xD800) * 0x400 + (uni2 - 0xDC00)]) b
                           else scanstring r (acc @ [uni]) b)
                    else scanstring r (acc @ [uni]) b)))"

text \<open>
  Numbers: an optional minus, then \<open>0\<close> or a digit \<open>1-9\<close> with further digits, then
  an optional fraction (\<open>.\<close> and digits), then an optional exponent (\<open>e\<close> or \<open>E\<close>,
  an optional sign, digits). The longest such prefix is taken.
\<close>

definition decimal_value :: "pystr \<Rightarrow> int" where
  "decimal_value ds = foldl (\<lambda>a d. 10 * a + (int d - 48)) 0 ds"

definition match_number :: "pystr \<Rightarrow> (json \<times> pystr) option" where
  "match_number s =
     (let neg = (s \<noteq> [] \<and> hd s = 45);
          s1 = (if neg then tl s else s)
      in if s1 = [] \<or> \<not> is_digit (hd s1) then None
         else
           let ds = (if hd s1 = 48 then [48] else takeWhile is_digit s1);
               s2 = drop (length ds) s1;
               frac = (case s2 of
                         d # f # _ \<Rightarrow> if d = 46 \<and> is_digit f
                                       then d # takeWhile is_digit (tl s2) else []
                       | _ \<Rightarrow> []);
               s3 = drop (length frac) s2;
               ex = (case s3 of
                       e # m \<Rightarrow>
                         if e = 101 \<or> e = 69 then
                           let sg = (if m \<noteq> [] \<and> (hd m = 45 \<or> hd m = 43) then [hd m] else []);
                               eds = takeWhile is_digit (drop (length sg) m)
                           in if eds = [] then [] else e # sg @ eds
                         else []
                     | _ \<Rightarrow> []);
               s4 = drop (length ex) s3
           in if frac = [] \<and> ex = []
              then Some (JInt (if neg then - decimal_value ds else decimal_value ds), s4)
              else Some (JFloat ((if neg then [45] else []) @ ds @ frac @ ex), s4))"

definition strip_prefix :: "pystr \<Rightarrow> pystr \<Rightarrow> pystr option" where
  "strip_prefix p s = (if take (length p) s = p then Some (drop (length p) s) else None)"

text \<open>
  The values that are neither strings nor containers: the constants \<open>null\<close>,
  \<open>true\<close>, \<open>false\<close>, \<open>NaN\<close>, \<open>Infinity\<close>, \<open>-Infinity\<close>, and numbers.
\<close>

definition scan_atom :: "pystr \<Rightarrow> json scan" where
  "scan_atom s =
     (case strip_prefix (lit ''null'') s of Some r \<Rightarrow> Ok JNull r | None \<Rightarrow>
      case strip_prefix (lit ''true'') s of Some r \<Rightarrow> Ok (JBool True) r | None \<Rightarrow>
      case strip_prefix (lit ''false'') s of Some r \<Rightarrow> Ok (JBool False) r | None \<Rightarrow>
      case strip_prefix (lit ''NaN'') s of Some r \<Rightarrow> Ok (JFloat (lit ''NaN'')) r | None \<Rightarrow>
      case strip_prefix (lit ''Infinity'') s of
        Some r \<Rightarrow> Ok (JFloat (lit ''Infinity'')) r | None \<Rightarrow>
      case strip_prefix (lit ''-Infinity'') s of
        Some r \<Rightarrow> Ok (JFloat (lit ''-Infinity'')) r | None \<Rightarrow>
      case match_number s of
        Some (v, r) \<Rightarrow> Ok v r
      | None \<Rightarrow> Fail ''Expecting value'' (length s))"

text \<open>
  \<open>scan_once\<close> with the loops of the array and the object parser. The first argument
  bounds the number of nested calls. \<open>array_items\<close> starts at an element,
  \<open>object_pairs\<close> at a key. A missing value is reported as \<open>Expecting value\<close> at
  the place where the value should start.
\<close>

fun scan_once :: "nat \<Rightarrow> pystr \<Rightarrow> json scan"
  and array_items :: "nat \<Rightarrow> pystr \<Rightarrow> json list \<Rightarrow> json scan"
  and object_pairs :: "nat \<Rightarrow> pystr \<Rightarrow> (pystr \<times> json) list \<Rightarrow> json scan"
where
  "scan_once 0 s = Deep"
| "scan_once (Suc n) s =
     (case s of
        [] \<Rightarrow> Fail ''Expecting value'' 0
      | c # cs \<Rightarrow>
          if c = 34 then
            (case scanstring cs [] (length s) of
               Ok v r \<Rightarrow> Ok (JStr v) r
             | Fail m k \<Rightarrow> Fail m k
             | Deep \<Rightarrow> Deep)
          else if c = 123 then
            (case skip_ws cs of
               [] \<Rightarrow> object_pairs n [] []
             | d # r \<Rightarrow> if d = 125 then Ok (JObj []) r else object_pairs n (d # r) [])
          else if c = 91 then
            (case skip_ws cs of
               [] \<Rightarrow> array_items n [] []
             | d # r \<Rightarrow> if d = 93 then Ok (JArr []) r else array_items n (d # r) [])
          else scan_atom s)"
| "array_items 0 s acc = Deep"
| "array_items (Suc n) s acc =
     (case scan_once n s of
        Fail m k \<Rightarrow> Fail m k
      | Deep \<Rightarrow> Deep
      | Ok v r \<Rightarrow>
          (case skip_ws r of
             [] \<Rightarrow> Fail ''Expecting ',' delimiter'' 0
           | d # r' \<Rightarrow>
               if d = 93 then Ok (JArr (acc @ [v])) r'
               else if d \<noteq> 44 then Fail ''Expecting ',' delimiter'' (Suc (length r'))
               else array_items n (skip_ws r') (acc @ [v])))"
| "object_pairs 0 s acc = Deep"
| "object_pairs (Suc n) s acc =
     (case s of
        [] \<Rightarrow> Fail ''Expecting property name enclosed in double quotes'' 0
      | c # cs \<Rightarrow>
          if c \<noteq> 34 then Fail ''Expecting property name enclosed in double quotes'' (length s)
          else
            (case scanstring cs [] (length s) of
               Fail m k \<Rightarrow> Fail m k
             | Deep \<Rightarrow> Deep
             | Ok key r \<Rightarrow>
                 (case skip_ws r of
                    [] \<Rightarrow> Fail ''Expecting ':' delimiter'' 0
                  | d # r' \<Rightarrow>
                      if d \<noteq> 58 then Fail ''Expecting ':' delimiter'' (Suc (length r'))
                      else
                        (case scan_once n (skip_ws r') of
                           Fail m k \<Rightarrow> Fail m k
                         | Deep \<Rightarrow> Deep
                         | Ok v r'' \<Rightarrow>
                             (case skip_ws r'' of
                                [] \<Rightarrow> Fail ''Expecting ',' delimiter'' 0
                              | e # t \<Rightarrow>
                                  if e = 125 then Ok (JObj (dict_set acc key v)) t
                                  else if e \<noteq> 44 then
                                    Fail ''Expecting ',' delimiter'' (Suc (length t))
                                  else object_pairs n (skip_ws t) (dict_set acc key v))))))"


text \<open>
  The text of a decoding error: the message, then line, column and index of the
  position \<open>pos\<close> in the document.
\<close>

fun decimal :: "nat \<Rightarrow> pystr" where
  "decimal n = (if n < 10 then [48 + n] else decimal (n div 10) @ [48 + n mod 10])"

definition errmsg :: "string \<Rightarrow> pystr \<Rightarrow> nat \<Rightarrow> pystr" where
  "errmsg msg doc pos =
     (let seen = take pos doc;
          lineno = length (filter (\<lambda>c. c = 10) seen) + 1;
          colno = length (takeWhile (\<lambda>c. c \<noteq> 10) (rev seen)) + 1
      in lit msg @ lit '': line '' @ decimal lineno @ lit '' column '' @ decimal colno
         @ lit '' (char '' @ decimal pos @ lit '')'')"

definition JSONDecodeError :: "string \<Rightarrow> pystr \<Rightarrow> nat \<Rightarrow> exn" where
  "JSONDecodeError msg doc pos = Exn ''JSONDecodeError'' (errmsg msg doc pos)"

text \<open>
  \<open>json.loads\<close> on a \<open>str\<close>: a leading byte order mark is refused; whitespace is
  skipped, one value is scanned, whitespace is skipped again, and anything left over is
  \<open>Extra data\<close>. The recursion bound given to \<open>scan_once\<close> is large enough for every
  document of this length.
\<close>

definition json_loads :: "pystr \<Rightarrow> exn + json" where
  "json_loads s =
     (if s \<noteq> [] \<and> hd s = 0xFEFF then
        Inl (JSONDecodeError ''Unexpected UTF-8 BOM (decode using utf-8-sig)'' s 0)
      else
        (case scan_once (2 * length s + 1) (skip_ws s) of
           Fail m k \<Rightarrow> Inl (JSONDecodeError m s (length s - k))
         | Deep \<Rightarrow> Inl (Exn ''RecursionError'' (lit ''maximum recursion depth exceeded''))
         | Ok v r \<Rightarrow>
             if skip_ws r = [] then Inr v
             else Inl (JSONDecodeError ''Extra data'' s (length s - length (skip_ws r)))))"

section \<open>utils/vision\_analysis.py\<close>

text \<open>
  The request sent to the chat completion endpoint (model, prompt text, image URL) and
  the part of the reply that the code reads: for each choice the \<open>message.content\<close>,
  which may be \<open>None\<close>.
\<close>

record chat_request =
  req_model :: string
  req_text :: pystr
  req_image_url :: pystr

record chat_response =
  choices :: "pystr option list"

text \<open>
  What the code gets from outside: \<open>Image.open\<close>, the PNG encoder behind
  \<open>Image.save\<close>, \<open>base64.b64encode\<close> (decoded as text) and the call
  \<open>client.chat.completions.create\<close>.
\<close>

record lib =
  lib_open :: "bytes \<Rightarrow> exn + image"
  lib_png :: "image \<Rightarrow> exn + bytes"
  lib_b64 :: "bytes \<Rightarrow> pystr"
  lib_chat :: "chat_request \<Rightarrow> exn + chat_response"

definition prompt :: pystr where
  "prompt = lit (concat (map (\<lambda>l. l @ [CHR 0x0A])
     ['''',
      ''You are a comic book expert. Analyze this comic cover and extract:'',
      '''',
      ''- Title'',
      ''- Issue Number'',
      ''- Publisher'',
      ''- Publication Year'',
      ''- Variant (if any)'',
      ''- Key Characters appearing'',
      ''- Key events or story arc'',
      ''- Artist / Writer (if visible on cover)'',
      ''- Notable markings or features'',
      '''',
      ''If unsure, give your best guess.'',
      ''Return JSON ONLY.'']))"

text \<open>
  \<open>analyze_comic_cover\<close>. The second component of the result is the list of requests
  made to the vision client so far. An empty list of choices makes \<open>choices[0]\<close>
  raise; a content of \<open>None\<close> makes \<open>json.loads\<close> raise a \<open>TypeError\<close>.
\<close>

definition analyze_comic_cover ::
  "lib \<Rightarrow> image \<Rightarrow> chat_request list \<Rightarrow> (exn + json) \<times> chat_request list" where
  "analyze_comic_cover L pil_image calls =
     (case save (lib_png L) pil_image of
        Inl e \<Rightarrow> (Inl e, calls)
      | Inr buffered \<Rightarrow>
          let img_b64 = lib_b64 L buffered;
              request = \<lparr>req_model = ''gpt-4o'', req_text = prompt,
                         req_image_url = lit ''data:image/png;base64,'' @ img_b64\<rparr>
          in case lib_chat L request of
               Inl e \<Rightarrow> (Inl e, calls @ [request])
             | Inr response \<Rightarrow>
                 (case choices response of
                    [] \<Rightarrow> (Inl (Exn ''IndexError'' (lit ''list index out of range'')),
                           calls @ [request])
                  | content # _ \<Rightarrow>
                      (case content of
                         None \<Rightarrow>
                           (Inl (Exn ''TypeError''
                              (lit ''the JSON object must be str, bytes or bytearray, not NoneType'')),
                            calls @ [request])
                       | Some result \<Rightarrow> (json_loads result, calls @ [request]))))"

section \<open>routes/identify.py\<close>

record http_response =
  status_code :: nat
  body :: json

definition error_response :: "exn \<Rightarrow> http_response" where
  "error_response e =
     \<lparr>status_code = 500,
      body = JObj [(lit ''detail'', JStr (lit ''Identification error: '' @ exn_str e))]\<rparr>"

text \<open>
  \<open>identify_comic\<close>, on the bytes read from the uploaded file and the \<open>user_id\<close>
  form field. A returned dictionary is sent with status 200.
\<close>

definition identify_comic ::
  "lib \<Rightarrow> bytes \<Rightarrow> pystr \<Rightarrow> chat_request list \<Rightarrow> http_response \<times> chat_request list" where
  "identify_comic L image_bytes user_id calls =
     (case load_image_as_pillow (lib_open L) image_bytes of
        Inl e \<Rightarrow> (error_response e, calls)
      | Inr pil_image \<Rightarrow>
          (case analyze_comic_cover L pil_image calls of
             (Inl e, calls') \<Rightarrow> (error_response e, calls')
           | (Inr identification, calls') \<Rightarrow>
               (\<lparr>status_code = 200,
                 body = JObj [(lit ''user_id'', JStr user_id),
                              (lit ''metadata'', identification)]\<rparr>,
                calls')))"

section \<open>Fixtures for concrete runs\<close>

text \<open>
  A stand-in for \<open>Image.open\<close> that recognises three byte streams: a PNG header with
  an alpha channel, a JPEG header in full colour, and a palette PNG whose pixel data is
  cut short; anything else is not an image.
\<close>

definition png_rgba_bytes :: bytes where "png_rgba_bytes = [0x89, 0x50, 0x4E, 0x47]"
definition jpeg_rgb_bytes :: bytes where "jpeg_rgb_bytes = [0xFF, 0xD8, 0xFF, 0xE0]"
definition png_cut_bytes :: bytes where "png_cut_bytes = [0x89, 0x50, 0x4E]"

definition mock_open :: "bytes \<Rightarrow> exn + image" where
  "mock_open bs =
     (if bs = png_rgba_bytes then
        Inr \<lparr>mode = ''RGBA'', size_wh = (2000, 1000), format = Some ''PNG'', load_error = None\<rparr>
      else if bs = jpeg_rgb_bytes then
        Inr \<lparr>mode = ''RGB'', size_wh = (640, 480), format = Some ''JPEG'', load_error = None\<rparr>
      else if bs = png_cut_bytes then
        Inr \<lparr>mode = ''P'', size_wh = (8, 8), format = Some ''PNG'',
             load_error = Some (Exn ''OSError'' (lit ''image file is truncated''))\<rparr>
      else Inl (Exn ''UnidentifiedImageError'' (lit ''cannot identify image file'')))"

text \<open>
  A store with two image objects, a 2000x1000 one at reference 0 and a 640x480 one at
  reference 1, and a stand-in for the JPEG encoder.
\<close>

definition cover_2000x1000 :: image where
  "cover_2000x1000 =
     \<lparr>mode = ''RGB'', size_wh = (2000, 1000), format = Some ''JPEG'', load_error = None\<rparr>"

definition cover_640x480 :: image where
  "cover_640x480 =
     \<lparr>mode = ''RGB'', size_wh = (640, 480), format = Some ''JPEG'', load_error = None\<rparr>"

definition mock_store :: store where
  "mock_store = \<lparr>objs = (\<lambda>r. if r = 0 then cover_2000x1000 else cover_640x480), next_free = 2\<rparr>"

definition mock_jpeg :: "image \<Rightarrow> int \<Rightarrow> exn + bytes" where
  "mock_jpeg im quality = Inr [0xFF, 0xD8, 0xFF, 0xDB]"

section \<open>Properties\<close>

text \<open>
  C8. The health endpoint reports \<open>openai_configured\<close> as false when
  \<open>OPENAI_API_KEY\<close> is unset and as true when it is set to a non-empty value. The
  response does not reveal the credential: two environments that differ only in the
  (non-empty) value of the credential give the same response.
\<close>

theorem health_check_credential:
  "(env ''OPENAI_API_KEY'' = None \<longrightarrow>
      \<not> openai_configured (health_check env routes version))
   \<and> (\<forall>v. v \<noteq> [] \<longrightarrow>
         openai_configured (health_check (env(''OPENAI_API_KEY'' \<mapsto> v)) routes version))
   \<and> (\<forall>v v'. v \<noteq> [] \<and> v' \<noteq> [] \<longrightarrow>
         health_check (env(''OPENAI_API_KEY'' \<mapsto> v)) routes version
         = health_check (env(''OPENAI_API_KEY'' \<mapsto> v')) routes version)"
  by (simp add: health_check_def py_bool_def getenv_default_def)

theorem health_check_credential_witness:
  "\<not> openai_configured (health_check Map.empty [''/'', ''/health''] ''3.11.10'')
   \<and> openai_configured
        (health_check [''OPENAI_API_KEY'' \<mapsto> ''sk-test''] [''/'', ''/health''] ''3.11.10'')
   \<and> health_check [''OPENAI_API_KEY'' \<mapsto> ''sk-test''] [''/'', ''/health''] ''3.11.10''
       = health_check [''OPENAI_API_KEY'' \<mapsto> ''sk-other''] [''/'', ''/health''] ''3.11.10''"
proof -
  note h = health_check_credential [of Map.empty "[''/'', ''/health'']" "''3.11.10''"]
  have a: "\<not> openai_configured (health_check Map.empty [''/'', ''/health''] ''3.11.10'')"
    using h by simp
  have b: "openai_configured
        (health_check [''OPENAI_API_KEY'' \<mapsto> ''sk-test''] [''/'', ''/health''] ''3.11.10'')"
    using h by simp
  have c: "health_check [''OPENAI_API_KEY'' \<mapsto> ''sk-test''] [''/'', ''/health''] ''3.11.10''
       = health_check [''OPENAI_API_KEY'' \<mapsto> ''sk-other''] [''/'', ''/health''] ''3.11.10''"
    using h by simp
  from a b c show ?thesis by simp
qed

text \<open>
  C3. When the byte stream opens as an image and its pixel data can be read, the
  normalizer returns an image whose mode is \<open>RGB\<close> or \<open>L\<close>, and \<open>RGB\<close> when the
  source mode was neither. Whenever the normalizer returns an image at all, the same
  holds of it.
\<close>

theorem load_image_as_pillow_mode:
  assumes "Image_open bs = Inr src"
  shows "(load_error src = None \<longrightarrow>
            (\<exists>im. load_image_as_pillow Image_open bs = Inr im))
         \<and> (\<forall>im. load_image_as_pillow Image_open bs = Inr im \<longrightarrow>
               mode im \<in> {''RGB'', ''L''}
               \<and> (mode src \<notin> {''RGB'', ''L''} \<longrightarrow> mode im = ''RGB''))"
  using assms
  by (auto simp: load_image_as_pillow_def convert_def load_def
           split: sum.splits option.splits if_splits)

theorem load_image_as_pillow_mode_witness:
  "mock_open png_rgba_bytes
     = Inr \<lparr>mode = ''RGBA'', size_wh = (2000, 1000), format = Some ''PNG'', load_error = None\<rparr>
   \<and> (\<exists>im. load_image_as_pillow mock_open png_rgba_bytes = Inr im \<and> mode im = ''RGB'')"
proof -
  have o: "mock_open png_rgba_bytes
     = Inr \<lparr>mode = ''RGBA'', size_wh = (2000, 1000), format = Some ''PNG'', load_error = None\<rparr>"
    by (simp add: mock_open_def)
  from load_image_as_pillow_mode [of mock_open png_rgba_bytes, OF o]
  have "\<exists>im. load_image_as_pillow mock_open png_rgba_bytes = Inr im \<and> mode im = ''RGB''"
    by auto
  with o show ?thesis by simp
qed

text \<open>
  C10. With the default list, \<open>validate_image_format\<close> is true exactly when the
  image's format is one of \<open>JPEG\<close>, \<open>PNG\<close>, \<open>JPG\<close>, \<open>WEBP\<close>; it is false when the
  format is \<open>None\<close>, hence false for every image that a mode conversion produced,
  among them every image that \<open>load_image_as_pillow\<close> returns for a source whose mode
  is neither \<open>RGB\<close> nor \<open>L\<close>.
\<close>

theorem validate_image_format_default:
  "(validate_image_format im None
      \<longleftrightarrow> format im \<in> {Some ''JPEG'', Some ''PNG'', Some ''JPG'', Some ''WEBP''})
   \<and> (format im = None \<longrightarrow> \<not> validate_image_format im None)
   \<and> (\<forall>im'. convert im m = Inr im' \<longrightarrow> \<not> validate_image_format im' None)
   \<and> (\<forall>src im'. Image_open bs = Inr src \<and> mode src \<notin> {''RGB'', ''L''}
          \<and> load_image_as_pillow Image_open bs = Inr im'
        \<longrightarrow> \<not> validate_image_format im' None)"
  by (auto simp: validate_image_format_def load_image_as_pillow_def convert_def load_def
           split: sum.splits option.splits if_splits)

theorem validate_image_format_default_witness:
  "mock_open png_rgba_bytes
     = Inr \<lparr>mode = ''RGBA'', size_wh = (2000, 1000), format = Some ''PNG'', load_error = None\<rparr>
   \<and> ''RGBA'' \<notin> {''RGB'', ''L''}
   \<and> load_image_as_pillow mock_open png_rgba_bytes
     = Inr \<lparr>mode = ''RGB'', size_wh = (2000, 1000), format = None, load_error = None\<rparr>
   \<and> \<not> validate_image_format
          \<lparr>mode = ''RGB'', size_wh = (2000, 1000), format = None, load_error = None\<rparr> None"
proof -
  let ?src = "\<lparr>mode = ''RGBA'', size_wh = (2000, 1000), format = Some ''PNG'', load_error = None\<rparr>"
  let ?im = "\<lparr>mode = ''RGB'', size_wh = (2000, 1000), format = None, load_error = None\<rparr>"
  have o: "mock_open png_rgba_bytes = Inr ?src"
    by (simp add: mock_open_def)
  have l: "load_image_as_pillow mock_open png_rgba_bytes = Inr ?im"
    by (simp add: load_image_as_pillow_def o convert_def load_def)
  have "\<not> validate_image_format ?im None"
    using validate_image_format_default [of ?im "''RGB''" mock_open png_rgba_bytes] o l
    by simp
  with o l show ?thesis by simp
qed

subsection \<open>Image.thumbnail: fitting images are left alone, and a second call changes nothing\<close>

lemma div_le_of_less_mult: "0 < (a::rat) \<Longrightarrow> x < a * y \<Longrightarrow> x / a \<le> y"
  by (simp add: pos_divide_le_eq mult.commute)

lemma round_aspect_le:
  "number \<le> of_int b \<Longrightarrow> 1 \<le> b \<Longrightarrow> round_aspect number key \<le> b"
  by (auto simp: round_aspect_def Let_def ceiling_le_iff floor_le_iff intro: order_trans[OF floor_le_ceiling] le_less_trans)

lemma round_aspect_ge1: "1 \<le> round_aspect number key"
  by (simp add: round_aspect_def)

lemma round_aspect_int: "1 \<le> r \<Longrightarrow> round_aspect (of_int r) key = r"
  by (simp add: round_aspect_def Let_def)

lemma preserve_fits:
  "int (fst wh) \<le> fst ms \<Longrightarrow> int (snd wh) \<le> snd ms \<Longrightarrow> preserve_aspect_ratio wh ms = Inr None"
  by (simp add: preserve_aspect_ratio_def Let_def)

lemma preserve_again:
  assumes p: "preserve_aspect_ratio (w, h) (x, y) = Inr (Some (x', y'))"
    and pos: "0 < w" "0 < h" and ok: "1 \<le> x'" "1 \<le> y'"
  shows "preserve_aspect_ratio (nat x', nat y') (x, y) = Inr None
         \<or> preserve_aspect_ratio (nat x', nat y') (x, y) = Inr (Some (x', y'))"
proof -
  let ?a = "of_nat w / of_nat h :: rat"
  have apos: "0 < ?a" using pos by simp
  from p pos have ny: "y \<noteq> 0" and nfit: "\<not> (x \<ge> int w \<and> y \<ge> int h)"
    by (auto simp: preserve_aspect_ratio_def Let_def split: if_splits)
  show ?thesis
  proof (cases "of_int x / of_int y \<ge> ?a")
    case True
    with p pos ny nfit have y': "y' = y"
      and x': "x' = round_aspect (of_int y * ?a) (\<lambda>n. \<bar>?a - of_int n / of_int y\<bar>)"
      by (auto simp: preserve_aspect_ratio_def Let_def split: if_splits)
    from ok y' have ypos: "0 < y" by simp
    from True ypos have "of_int y * ?a \<le> (of_int x :: rat)"
      by (simp add: pos_le_divide_eq mult.commute)
    moreover have "0 < of_int y * ?a" using ypos pos by simp
    ultimately have "0 < (of_int x :: rat)" by linarith
    then have "1 \<le> x" by simp
    with \<open>of_int y * ?a \<le> of_int x\<close> have "x' \<le> x"
      unfolding x' by (rule round_aspect_le)
    with ok y' show ?thesis
      by (simp add: preserve_aspect_ratio_def)
  next
    case False
    with p pos ny nfit have x': "x' = x"
      and y': "y' = round_aspect (of_int x / ?a) (\<lambda>n. if n = 0 then 0 else \<bar>?a - of_int x / of_int n\<bar>)"
      by (auto simp: preserve_aspect_ratio_def Let_def split: if_splits)
    from ok x' have xpos: "1 \<le> x" by simp
    show ?thesis
    proof (cases "0 < y")
      case True
      from False True have "of_int x < ?a * (of_int y :: rat)"
        by (simp add: pos_divide_less_eq not_le)
      with apos have "of_int x / ?a \<le> (of_int y :: rat)"
        by (rule div_le_of_less_mult)
      moreover from True have "1 \<le> y" by simp
      ultimately have "y' \<le> y" unfolding y' by (rule round_aspect_le)
      with ok x' show ?thesis by (simp add: preserve_aspect_ratio_def)
    next
      case ny0: False
      with ny have yneg: "y < 0" by simp
      from ok have c: "of_nat (nat x') / of_nat (nat y') = (of_int x' / of_int y' :: rat)"
        by simp
      have neg: "(of_int x / of_int y :: rat) < 0"
        using xpos yneg by (simp add: divide_pos_neg)
      have pos': "0 < (of_int x' / of_int y' :: rat)" using ok by simp
      have "\<not> (of_int x / of_int y :: rat) \<ge> of_int x' / of_int y'"
        using neg pos' by linarith
      moreover have "(of_int x :: rat) / (of_int x' / of_int y') = of_int y'"
        using x' xpos by simp
      ultimately show ?thesis using ok yneg x' pos'
        by (simp add: preserve_aspect_ratio_def Let_def c round_aspect_int)
    qed
  qed
qed

lemma thumbnail_fits:
  "int (fst (size_wh im)) \<le> fst ms \<Longrightarrow> int (snd (size_wh im)) \<le> snd ms \<Longrightarrow> thumbnail im ms = Inr im"
  by (simp add: thumbnail_def preserve_fits)

lemma thumbnail_idem:
  assumes t: "thumbnail im ms = Inr im'" and pos: "0 < fst (size_wh im)" "0 < snd (size_wh im)"
  shows "thumbnail im' ms = Inr im'"
proof (cases "im' = im")
  case True with t show ?thesis by simp
next
  case False
  obtain w h where wh: "size_wh im = (w, h)" by (cases "size_wh im")
  obtain x y where ms: "ms = (x, y)" by (cases ms)
  from t False obtain x' y' where
    p: "preserve_aspect_ratio (w, h) (x, y) = Inr (Some (x', y'))"
    and l: "load_error im = None" and ok: "1 \<le> x'" "1 \<le> y'"
    and im': "im' = im\<lparr>size_wh := (nat x', nat y')\<rparr>"
    by (auto simp: thumbnail_def wh ms load_def split: sum.splits option.splits if_splits)
  from preserve_again [OF p _ _ ok] pos wh
  have "preserve_aspect_ratio (nat x', nat y') (x, y) = Inr None
         \<or> preserve_aspect_ratio (nat x', nat y') (x, y) = Inr (Some (x', y'))" by simp
  then show ?thesis using ok l
    by (auto simp: thumbnail_def im' ms load_def)
qed

text \<open>
  C9. \<open>resize_image\<close> never enlarges: an image whose width and height are within the
  bound is returned with the store, and so its dimensions, unchanged. It is idempotent
  for a fixed bound: when a call on an image with positive width and height returns,
  a second call with the same bound returns the same reference and the same store.
\<close>

theorem resize_image_fits_idempotent:
  "(int (fst (size_wh (objs s r))) \<le> fst ms \<and> int (snd (size_wh (objs s r))) \<le> snd ms
      \<longrightarrow> resize_image s r ms = (Inr r, s))
   \<and> (\<forall>r1 s1. 0 < fst (size_wh (objs s r)) \<and> 0 < snd (size_wh (objs s r))
          \<and> resize_image s r ms = (Inr r1, s1)
        \<longrightarrow> resize_image s1 r1 ms = (Inr r1, s1)
            \<and> size_wh (objs (snd (resize_image s1 r1 ms)) r1) = size_wh (objs s1 r1))"
proof (intro conjI impI allI)
  assume "int (fst (size_wh (objs s r))) \<le> fst ms \<and> int (snd (size_wh (objs s r))) \<le> snd ms"
  then have "thumbnail (objs s r) ms = Inr (objs s r)"
    by (simp add: thumbnail_fits)
  then show "resize_image s r ms = (Inr r, s)"
    by (simp add: resize_image_def)
next
  fix r1 s1
  assume a: "0 < fst (size_wh (objs s r)) \<and> 0 < snd (size_wh (objs s r))
          \<and> resize_image s r ms = (Inr r1, s1)"
  then obtain im' where t: "thumbnail (objs s r) ms = Inr im'"
    and r1: "r1 = r" and s1: "s1 = s\<lparr>objs := (objs s)(r := im')\<rparr>"
    by (auto simp: resize_image_def split: sum.splits)
  from t a have "thumbnail im' ms = Inr im'"
    by (simp add: thumbnail_idem)
  then show i: "resize_image s1 r1 ms = (Inr r1, s1)"
    by (simp add: resize_image_def r1 s1)
  then show "size_wh (objs (snd (resize_image s1 r1 ms)) r1) = size_wh (objs s1 r1)"
    by simp
qed

theorem resize_image_fits_idempotent_witness:
  "resize_image mock_store 1 (1024, 1024) = (Inr 1, mock_store)
   \<and> resize_image mock_store 0 (1024, 1024)
       = (Inr 0, mock_store\<lparr>objs := (objs mock_store)(0 := cover_2000x1000\<lparr>size_wh := (1024, 512)\<rparr>)\<rparr>)
   \<and> resize_image (mock_store\<lparr>objs := (objs mock_store)(0 := cover_2000x1000\<lparr>size_wh := (1024, 512)\<rparr>)\<rparr>)
         0 (1024, 1024)
       = (Inr 0, mock_store\<lparr>objs := (objs mock_store)(0 := cover_2000x1000\<lparr>size_wh := (1024, 512)\<rparr>)\<rparr>)"
proof -
  let ?s1 = "mock_store\<lparr>objs := (objs mock_store)(0 := cover_2000x1000\<lparr>size_wh := (1024, 512)\<rparr>)\<rparr>"
  have p: "preserve_aspect_ratio (2000, 1000) (1024, 1024) = Inr (Some (1024, 512))"
    by (simp add: preserve_aspect_ratio_def round_aspect_def Let_def)
  have f: "resize_image mock_store 0 (1024, 1024) = (Inr 0, ?s1)"
    by (simp add: resize_image_def thumbnail_def mock_store_def cover_2000x1000_def p load_def)
  have a: "resize_image mock_store 1 (1024, 1024) = (Inr 1, mock_store)"
    using resize_image_fits_idempotent [of mock_store 1 "(1024, 1024)"]
    by (simp add: mock_store_def cover_640x480_def)
  have b: "resize_image ?s1 0 (1024, 1024) = (Inr 0, ?s1)"
    using resize_image_fits_idempotent [of mock_store 0 "(1024, 1024)"] f
    by (simp add: mock_store_def cover_2000x1000_def)
  from a f b show ?thesis by simp
qed

text \<open>
  C6. Resizing a loadable 2000x1000 image with the bound 1024x1024 gives a 1024x512
  image: no wider and no taller than 1024, with the aspect ratio 2:1 kept exactly.
  \<open>optimize_image_for_api\<close> resizes only when the width or the height exceeds the
  bound: otherwise it is the conversion and encoding of the image as passed, and the
  caller's image object is as before.
\<close>

theorem resize_2000x1000_and_optimize_guard:
  "(size_wh (objs s r) = (2000, 1000) \<and> load_error (objs s r) = None \<longrightarrow>
      (\<exists>s'. resize_image s r (1024, 1024) = (Inr r, s')
         \<and> size_wh (objs s' r) = (1024, 512)
         \<and> fst (size_wh (objs s' r)) \<le> 1024 \<and> snd (size_wh (objs s' r)) \<le> 1024
         \<and> (of_nat (fst (size_wh (objs s' r))) / of_nat (snd (size_wh (objs s' r))) :: rat)
             = 2000 / 1000))
   \<and> (\<not> (int (fst (size_wh (objs s r))) > fst ms \<or> int (snd (size_wh (objs s r))) > snd ms)
      \<longrightarrow> optimize_image_for_api jpeg s r ms q = convert_and_encode jpeg s r q
          \<and> (r < next_free s \<longrightarrow> objs (snd (optimize_image_for_api jpeg s r ms q)) r = objs s r))
   \<and> (int (fst (size_wh (objs s r))) > fst ms \<or> int (snd (size_wh (objs s r))) > snd ms
      \<longrightarrow> optimize_image_for_api jpeg s r ms q
          = (case resize_image s r ms of
               (Inl e, s') \<Rightarrow> (Inl e, s')
             | (Inr r', s') \<Rightarrow> convert_and_encode jpeg s' r' q))"
proof -
  have p: "preserve_aspect_ratio (2000, 1000) (1024, 1024) = Inr (Some (1024, 512))"
    by (simp add: preserve_aspect_ratio_def round_aspect_def Let_def)
  have A: "\<exists>s'. resize_image s r (1024, 1024) = (Inr r, s')
         \<and> size_wh (objs s' r) = (1024, 512)
         \<and> fst (size_wh (objs s' r)) \<le> 1024 \<and> snd (size_wh (objs s' r)) \<le> 1024
         \<and> (of_nat (fst (size_wh (objs s' r))) / of_nat (snd (size_wh (objs s' r))) :: rat)
             = 2000 / 1000"
    if a: "size_wh (objs s r) = (2000, 1000) \<and> load_error (objs s r) = None"
  proof -
    from a have "thumbnail (objs s r) (1024, 1024) = Inr ((objs s r)\<lparr>size_wh := (1024, 512)\<rparr>)"
      by (simp add: thumbnail_def p load_def)
    then show ?thesis
      by (simp add: resize_image_def)
  qed
  have B: "optimize_image_for_api jpeg s r ms q = convert_and_encode jpeg s r q
          \<and> (r < next_free s \<longrightarrow> objs (snd (optimize_image_for_api jpeg s r ms q)) r = objs s r)"
    if n: "\<not> (int (fst (size_wh (objs s r))) > fst ms \<or> int (snd (size_wh (objs s r))) > snd ms)"
  proof -
    from n have e: "optimize_image_for_api jpeg s r ms q = convert_and_encode jpeg s r q"
      by (simp add: optimize_image_for_api_def)
    have "r < next_free s \<longrightarrow> objs (snd (convert_and_encode jpeg s r q)) r = objs s r"
      by (auto simp: convert_and_encode_def convert_obj_def split: sum.splits prod.splits)
    with e show ?thesis by simp
  qed
  have C: "optimize_image_for_api jpeg s r ms q
          = (case resize_image s r ms of
               (Inl e, s') \<Rightarrow> (Inl e, s')
             | (Inr r', s') \<Rightarrow> convert_and_encode jpeg s' r' q)"
    if "int (fst (size_wh (objs s r))) > fst ms \<or> int (snd (size_wh (objs s r))) > snd ms"
    using that by (simp add: optimize_image_for_api_def)
  from A B C show ?thesis by blast
qed

theorem resize_2000x1000_and_optimize_guard_witness:
  "size_wh (objs mock_store 0) = (2000, 1000) \<and> load_error (objs mock_store 0) = None
   \<and> (\<exists>s'. resize_image mock_store 0 (1024, 1024) = (Inr 0, s')
          \<and> size_wh (objs s' 0) = (1024, 512))
   \<and> size_wh (objs mock_store 1) = (640, 480)
   \<and> (1::nat) < next_free mock_store
   \<and> objs (snd (optimize_image_for_api mock_jpeg mock_store 1 (1024, 1024) 85)) 1 = objs mock_store 1
   \<and> optimize_image_for_api mock_jpeg mock_store 0 (1024, 1024) 85
       = (case resize_image mock_store 0 (1024, 1024) of
               (Inl e, s') \<Rightarrow> (Inl e, s')
             | (Inr r', s') \<Rightarrow> convert_and_encode mock_jpeg s' r' 85)"
proof -
  have h0: "size_wh (objs mock_store 0) = (2000, 1000) \<and> load_error (objs mock_store 0) = None"
    by (simp add: mock_store_def cover_2000x1000_def)
  have h1: "size_wh (objs mock_store 1) = (640, 480)" "(1::nat) < next_free mock_store"
    by (simp_all add: mock_store_def cover_640x480_def)
  note t0 = resize_2000x1000_and_optimize_guard [of mock_store 0 "(1024, 1024)" mock_jpeg 85]
  note t1 = resize_2000x1000_and_optimize_guard [of mock_store 1 "(1024, 1024)" mock_jpeg 85]
  have a: "\<exists>s'. resize_image mock_store 0 (1024, 1024) = (Inr 0, s')
          \<and> size_wh (objs s' 0) = (1024, 512)"
    using t0 h0 by blast
  have b: "objs (snd (optimize_image_for_api mock_jpeg mock_store 1 (1024, 1024) 85)) 1 = objs mock_store 1"
  proof -
    have "\<not> (int (fst (size_wh (objs mock_store 1))) > fst (1024::int, 1024::int)
             \<or> int (snd (size_wh (objs mock_store 1))) > snd (1024::int, 1024::int))"
      using h1 by simp
    with t1 h1(2) show ?thesis by blast
  qed
  have c: "optimize_image_for_api mock_jpeg mock_store 0 (1024, 1024) 85
       = (case resize_image mock_store 0 (1024, 1024) of
               (Inl e, s') \<Rightarrow> (Inl e, s')
             | (Inr r', s') \<Rightarrow> convert_and_encode mock_jpeg s' r' 85)"
  proof -
    have "int (fst (size_wh (objs mock_store 0))) > fst (1024::int, 1024::int)
             \<or> int (snd (size_wh (objs mock_store 0))) > snd (1024::int, 1024::int)"
      using h0 by simp
    with t0 show ?thesis by blast
  qed
  from h0 h1 a b c show ?thesis by simp
qed

text \<open>
  C7 as stated fails: \<open>resize_image\<close> on the 2000x1000 image at reference 0 leaves
  the caller's object with the size 1024x512, and so does \<open>optimize_image_for_api\<close>.
\<close>

theorem resize_image_modifies_argument:
  "size_wh (objs mock_store 0) = (2000, 1000)
   \<and> size_wh (objs (snd (resize_image mock_store 0 (1024, 1024))) 0) = (1024, 512)
   \<and> objs (snd (resize_image mock_store 0 (1024, 1024))) 0 \<noteq> objs mock_store 0
   \<and> objs (snd (optimize_image_for_api mock_jpeg mock_store 0 (1024, 1024) 85)) 0
       \<noteq> objs mock_store 0"
proof -
  have p: "preserve_aspect_ratio (2000, 1000) (1024, 1024) = Inr (Some (1024, 512))"
    by (simp add: preserve_aspect_ratio_def round_aspect_def Let_def)
  have r: "resize_image mock_store 0 (1024, 1024)
       = (Inr 0, mock_store\<lparr>objs := (objs mock_store)(0 := cover_2000x1000\<lparr>size_wh := (1024, 512)\<rparr>)\<rparr>)"
    by (simp add: resize_image_def thumbnail_def mock_store_def cover_2000x1000_def p load_def)
  have o: "snd (optimize_image_for_api mock_jpeg mock_store 0 (1024, 1024) 85)
       = mock_store\<lparr>objs := (objs mock_store)(0 := cover_2000x1000\<lparr>size_wh := (1024, 512)\<rparr>)\<rparr>"
    by (simp add: optimize_image_for_api_def r convert_and_encode_def)
       (simp add: mock_store_def cover_2000x1000_def)
  have s: "objs mock_store 0 = cover_2000x1000"
    by (simp add: mock_store_def)
  show ?thesis
    by (simp add: r o s) (simp add: cover_2000x1000_def)
qed

text \<open>
  C7, amended. \<open>load_image_as_pillow\<close> takes bytes and no image. \<open>resize_image\<close>
  and \<open>optimize_image_for_api\<close> never touch an existing object other than their
  argument, and they leave the argument itself unmodified when its width and height
  are within the bound; the reference \<open>resize_image\<close> returns is its argument, so
  that a resize of a larger image is a change of the caller's object.
\<close>

theorem image_operations_frame:
  assumes "r < next_free s"
  shows "(\<forall>a. a < next_free s \<and> a \<noteq> r \<longrightarrow>
            objs (snd (resize_image s r ms)) a = objs s a
            \<and> objs (snd (optimize_image_for_api jpeg s r ms q)) a = objs s a)
         \<and> (int (fst (size_wh (objs s r))) \<le> fst ms \<and> int (snd (size_wh (objs s r))) \<le> snd ms
            \<longrightarrow> objs (snd (resize_image s r ms)) r = objs s r
                \<and> objs (snd (optimize_image_for_api jpeg s r ms q)) r = objs s r)
         \<and> (\<forall>r'. fst (resize_image s r ms) = Inr r' \<longrightarrow> r' = r)"
proof -
  have rs: "\<And>a. a \<noteq> r \<Longrightarrow> objs (snd (resize_image s r ms)) a = objs s a"
    by (simp add: resize_image_def split: sum.splits)
  have rn: "next_free (snd (resize_image s r ms)) = next_free s"
    by (simp add: resize_image_def split: sum.splits)
  have ce: "\<And>s' r' a. a < next_free s' \<Longrightarrow>
              objs (snd (convert_and_encode jpeg s' r' q)) a = objs s' a"
    by (auto simp: convert_and_encode_def convert_obj_def split: sum.splits prod.splits)
  have op: "\<And>a. a < next_free s \<Longrightarrow>
              objs (snd (optimize_image_for_api jpeg s r ms q)) a
              = objs (if int (fst (size_wh (objs s r))) > fst ms
                         \<or> int (snd (size_wh (objs s r))) > snd ms
                      then snd (resize_image s r ms) else s) a"
    using rn
    by (auto simp: optimize_image_for_api_def ce split: sum.splits prod.splits)
  have fit: "int (fst (size_wh (objs s r))) \<le> fst ms \<and> int (snd (size_wh (objs s r))) \<le> snd ms
            \<Longrightarrow> resize_image s r ms = (Inr r, s)"
    by (simp add: resize_image_def thumbnail_fits)
  have ret: "\<And>r'. fst (resize_image s r ms) = Inr r' \<Longrightarrow> r' = r"
    by (auto simp: resize_image_def split: sum.splits)
  show ?thesis
    using assms rs op fit ret by auto
qed

theorem image_operations_frame_witness:
  "(1::nat) < next_free mock_store
   \<and> objs (snd (resize_image mock_store 0 (1024, 1024))) 1 = objs mock_store 1
   \<and> objs (snd (optimize_image_for_api mock_jpeg mock_store 0 (1024, 1024) 85)) 1 = objs mock_store 1
   \<and> objs (snd (resize_image mock_store 1 (1024, 1024))) 1 = objs mock_store 1
   \<and> objs (snd (optimize_image_for_api mock_jpeg mock_store 1 (1024, 1024) 85)) 1 = objs mock_store 1"
proof -
  have n: "(0::nat) < next_free mock_store" "(1::nat) < next_free mock_store"
    by (simp_all add: mock_store_def)
  have f: "int (fst (size_wh (objs mock_store 1))) \<le> fst (1024::int, 1024::int)
           \<and> int (snd (size_wh (objs mock_store 1))) \<le> snd (1024::int, 1024::int)"
    by (simp add: mock_store_def cover_640x480_def)
  note t0 = image_operations_frame [OF n(1), of "(1024, 1024)" mock_jpeg 85]
  note t1 = image_operations_frame [OF n(2), of "(1024, 1024)" mock_jpeg 85]
  have a: "objs (snd (resize_image mock_store 0 (1024, 1024))) 1 = objs mock_store 1
     \<and> objs (snd (optimize_image_for_api mock_jpeg mock_store 0 (1024, 1024) 85)) 1 = objs mock_store 1"
    using t0 n(2) by simp
  have b: "objs (snd (resize_image mock_store 1 (1024, 1024))) 1 = objs mock_store 1
     \<and> objs (snd (optimize_image_for_api mock_jpeg mock_store 1 (1024, 1024) 85)) 1 = objs mock_store 1"
    using t1 f by blast
  from n a b show ?thesis by simp
qed

end
